theory Spec2Isabelle
  imports Main "HOL-Library.AList"
begin

section \<open>JavaScript values\<close>

text \<open>
  The pages keep whatever \<^verbatim>\<open>JSON.parse\<close> returned, and read fields off it without
  checking its shape. A value is therefore modelled untyped. \<open>Undefined\<close> is never produced
  by the parser; it is the result of reading a property that is not there.
  Numbers are restricted to integers. An object is the list of its own properties in
  insertion order, with no key twice.
\<close>

datatype jsval =
    Undefined
  | Null
  | Bool bool
  | Num int
  | Str string
  | Arr "jsval list"
  | Obj "(string \<times> jsval) list"

text \<open>Truthiness, as \<^verbatim>\<open>if (v)\<close>, \<^verbatim>\<open>!v\<close> and \<^verbatim>\<open>v || w\<close> test it.\<close>

fun truthy :: "jsval \<Rightarrow> bool" where
  "truthy Undefined = False"
| "truthy Null = False"
| "truthy (Bool b) = b"
| "truthy (Num n) = (n \<noteq> 0)"
| "truthy (Str s) = (s \<noteq> [])"
| "truthy (Arr xs) = True"
| "truthy (Obj kvs) = True"

text \<open>\<^verbatim>\<open>a || b\<close>\<close>

definition or_else :: "jsval \<Rightarrow> jsval \<Rightarrow> jsval" where
  "or_else a b = (if truthy a then a else b)"

text \<open>
  \<^verbatim>\<open>v.k\<close> for a property name \<open>k\<close>. Reading a property of \<^verbatim>\<open>null\<close> or
  \<^verbatim>\<open>undefined\<close> throws a TypeError (\<open>None\<close>); on any other value a name that is not there
  reads as \<^verbatim>\<open>undefined\<close>. Strings and arrays have \<^verbatim>\<open>length\<close>.
\<close>

fun read_prop :: "jsval \<Rightarrow> string \<Rightarrow> jsval option" where
  "read_prop Undefined k = None"
| "read_prop Null k = None"
| "read_prop (Obj kvs) k = Some (case map_of kvs k of None \<Rightarrow> Undefined | Some v \<Rightarrow> v)"
| "read_prop (Arr xs) k = Some (if k = ''length'' then Num (int (length xs)) else Undefined)"
| "read_prop (Str s) k = Some (if k = ''length'' then Num (int (length s)) else Undefined)"
| "read_prop (Bool b) k = Some Undefined"
| "read_prop (Num n) k = Some Undefined"

text \<open>
  The message of the TypeError that reading property \<open>k\<close> of \<^verbatim>\<open>null\<close> throws. The wording
  is the engine's (here V8's); nothing below depends on it.
\<close>

definition cannot_read :: "string \<Rightarrow> string" where
  "cannot_read k = ''Cannot read properties of null (reading '' @ [CHR 0x27] @ k @ [CHR 0x27] @ '')''"

text \<open>Decimal notation of an integer.\<close>

fun show_nat :: "nat \<Rightarrow> string" where
  "show_nat n =
     (if n < 10 then [char_of (48 + n)]
      else show_nat (n div 10) @ [char_of (48 + n mod 10)])"

definition show_int :: "int \<Rightarrow> string" where
  "show_int i = (if i < 0 then CHR ''-'' # show_nat (nat (- i)) else show_nat (nat i))"

text \<open>
  The string a value converts to in \<^verbatim>\<open>new Error(v)\<close>, \<^verbatim>\<open>alert(v)\<close>, a template literal
  and string concatenation. An array is its elements joined by commas, with
  \<^verbatim>\<open>null\<close> and \<^verbatim>\<open>undefined\<close> elements left empty; integers below \<open>10^21\<close> in magnitude
  print in plain decimal notation.
\<close>

fun to_string :: "jsval \<Rightarrow> string" and join_comma :: "jsval list \<Rightarrow> string" where
  "to_string Undefined = ''undefined''"
| "to_string Null = ''null''"
| "to_string (Bool b) = (if b then ''true'' else ''false'')"
| "to_string (Num n) = show_int n"
| "to_string (Str s) = s"
| "to_string (Arr xs) = join_comma xs"
| "to_string (Obj kvs) = ''[object Object]''"
| "join_comma [] = []"
| "join_comma [x] = (if x = Null \<or> x = Undefined then [] else to_string x)"
| "join_comma (x # y # ys) =
     (if x = Null \<or> x = Undefined then [] else to_string x) @ '','' @ join_comma (y # ys)"

section \<open>The gateway\<close>

text \<open>
  What a page sees of an HTTP response: the status, and the outcome of
  \<^verbatim>\<open>JSON.parse\<close> on the body text (\<open>None\<close> when the text is not JSON).
  \<^verbatim>\<open>response.ok\<close> is true for the statuses 200 to 299.
\<close>

record response =
  status :: nat
  parsed :: "jsval option"

definition ok :: "response \<Rightarrow> bool" where
  "ok r = (200 \<le> status r \<and> status r \<le> 299)"

text \<open>
  An awaited promise either rejects with an error, of which only the message is ever
  read, or resolves. A rejection while the body of a response is read ends in the same
  \<^verbatim>\<open>catch\<close> as a rejection of the fetch, and is not told apart from it.
\<close>

datatype 'a awaited = Rejected string | Resolved 'a

text \<open>The requests a handler issues; the path is relative to the base URL.\<close>

datatype http_method = GET | PUT | DELETE

record request =
  http_method :: http_method
  path :: string
  payload :: "jsval option"

text \<open>
  \<^verbatim>\<open>parseJsonSafely\<close> (the same text in the order page, the contact page and the combined
  panel). The left injection is the message of the error thrown.
\<close>

definition parseJsonSafely :: "response \<Rightarrow> string + jsval" where
  "parseJsonSafely r =
     (case parsed r of
        None \<Rightarrow> Inl ''Invalid server response (not JSON).''
      | Some v \<Rightarrow> Inr v)"

text \<open>
  The message of the error raised by \<^verbatim>\<open>throw new Error(data.message || fallback)\<close>;
  when \<open>data\<close> is \<^verbatim>\<open>null\<close> the property read throws first.
\<close>

definition thrown_message :: "jsval \<Rightarrow> string \<Rightarrow> string" where
  "thrown_message data fallback =
     (case read_prop data ''message'' of
        None \<Rightarrow> cannot_read ''message''
      | Some m \<Rightarrow> to_string (or_else m (Str fallback)))"

text \<open>
  What a handler leaves behind: the component state (\<open>None\<close> when a state updater threw,
  which React rethrows while rendering, unmounting the page), the requests issued and
  the \<^verbatim>\<open>alert\<close> dialogs shown, in order.
\<close>

record 'st outcome =
  final :: "'st option"
  requests :: "request list"
  alerts :: "string list"

section \<open>Table bodies\<close>

text \<open>
  A table body is a list of rows. \<open>RecordRow o\<close> stands for the \<^verbatim>\<open><tr key={o._id}>\<close>
  element built from the record \<open>o\<close> alone; the contents of its cells are not modelled.
  \<open>None\<close> is a TypeError thrown while rendering.
\<close>

datatype row = LoadingRow | ErrorRow string | EmptyRow | RecordRow jsval


definition rows_of :: "jsval \<Rightarrow> row list option" where
  "rows_of c = (case c of Arr xs \<Rightarrow> Some (map RecordRow xs) | _ \<Rightarrow> None)"


section \<open>State updaters\<close>



text \<open>
  The own enumerable properties that an object spread copies: those of an object, the
  indexed elements of an array or a string, none of any other value.
\<close>

fun own_props :: "jsval \<Rightarrow> (string \<times> jsval) list" where
  "own_props (Obj kvs) = kvs"
| "own_props (Arr xs) = zip (map show_nat [0..<length xs]) xs"
| "own_props (Str s) = zip (map show_nat [0..<length s]) (map (\<lambda>c. Str [c]) s)"
| "own_props v = []"

text \<open>\<^verbatim>\<open>{ ...o, status: newStatus }\<close>: an existing key keeps its place, a new one goes last.\<close>

definition with_status :: "jsval \<Rightarrow> string \<Rightarrow> jsval" where
  "with_status x newStatus = Obj (AList.update ''status'' (Str newStatus) (own_props x))"

fun patch_status :: "string \<Rightarrow> string \<Rightarrow> jsval list \<Rightarrow> jsval list option" where
  "patch_status i newStatus [] = Some []"
| "patch_status i newStatus (x # xs) =
     (case read_prop x ''_id'' of
        None \<Rightarrow> None
      | Some v \<Rightarrow>
          (case patch_status i newStatus xs of
             None \<Rightarrow> None
           | Some r \<Rightarrow> Some ((if v = Str i then with_status x newStatus else x) # r)))"

text \<open>\<^verbatim>\<open>prev.map((o) => (o._id === id ? { ...o, status: newStatus } : o))\<close>\<close>

definition set_status_by_id :: "string \<Rightarrow> string \<Rightarrow> jsval \<Rightarrow> jsval option" where
  "set_status_by_id i newStatus c =
     (case c of Arr xs \<Rightarrow> map_option Arr (patch_status i newStatus xs) | _ \<Rightarrow> None)"

section \<open>The order page (Order-management.jsx) and the contact page (Contact-management.jsx)\<close>

text \<open>
  Both pages hold three state variables: the collection (\<^verbatim>\<open>orders\<close>, \<^verbatim>\<open>contacts\<close>),
  \<^verbatim>\<open>loading\<close> and \<^verbatim>\<open>error\<close>.
\<close>

record page_state =
  collection :: jsval
  loading :: bool
  error :: "string option"

text \<open>\<^verbatim>\<open>useState([])\<close>, \<^verbatim>\<open>useState(true)\<close>, \<^verbatim>\<open>useState(null)\<close>, in both pages.\<close>

definition OrderManagement :: page_state where
  "OrderManagement = \<lparr>collection = Arr [], loading = True, error = None\<rparr>"

definition ContactManagement :: page_state where
  "ContactManagement = \<lparr>collection = Arr [], loading = True, error = None\<rparr>"

text \<open>
  A list fetch in three steps: what runs before the first \<^verbatim>\<open>await\<close>, the body of the
  \<^verbatim>\<open>try\<close> once the response is in, and the \<^verbatim>\<open>catch\<close> and \<^verbatim>\<open>finally\<close> blocks.
\<close>

definition fetch_started :: "page_state \<Rightarrow> page_state" where
  "fetch_started st = st\<lparr>loading := True, error := None\<rparr>"

definition fetch_settled :: "string + jsval \<Rightarrow> page_state \<Rightarrow> page_state" where
  "fetch_settled r st =
     (case r of
        Inl m \<Rightarrow> st\<lparr>error := Some m, loading := False\<rparr>
      | Inr c \<Rightarrow> st\<lparr>collection := c, loading := False\<rparr>)"

definition fetchOrders_try :: "response awaited \<Rightarrow> string + jsval" where
  "fetchOrders_try f =
     (case f of
        Rejected m \<Rightarrow> Inl m
      | Resolved orderRes \<Rightarrow>
          (case parseJsonSafely orderRes of
             Inl m \<Rightarrow> Inl m
           | Inr orderData \<Rightarrow>
               if \<not> ok orderRes then Inl (thrown_message orderData ''Failed to fetch orders'')
               else (case read_prop orderData ''data'' of
                       None \<Rightarrow> Inl (cannot_read ''data'')
                     | Some d \<Rightarrow> Inr (or_else d (Arr [])))))"

definition fetchOrders :: "response awaited \<Rightarrow> page_state \<Rightarrow> page_state" where
  "fetchOrders f st = fetch_settled (fetchOrders_try f) (fetch_started st)"

text \<open>\<^verbatim>\<open>Array.isArray(data) ? data : data.data || []\<close>\<close>

definition fetchContacts_try :: "response awaited \<Rightarrow> string + jsval" where
  "fetchContacts_try f =
     (case f of
        Rejected m \<Rightarrow> Inl m
      | Resolved res \<Rightarrow>
          (case parseJsonSafely res of
             Inl m \<Rightarrow> Inl m
           | Inr data \<Rightarrow>
               if \<not> ok res then Inl (thrown_message data ''Failed to fetch contacts'')
               else (case data of
                       Arr xs \<Rightarrow> Inr data
                     | _ \<Rightarrow> (case read_prop data ''data'' of
                               None \<Rightarrow> Inl (cannot_read ''data'')
                             | Some d \<Rightarrow> Inr (or_else d (Arr []))))))"

definition fetchContacts :: "response awaited \<Rightarrow> page_state \<Rightarrow> page_state" where
  "fetchContacts f st = fetch_settled (fetchContacts_try f) (fetch_started st)"

text \<open>
  \<^verbatim>\<open>if (!res.ok || !data.success) throw new Error(data.message || fallback)\<close>, after
  the fetch and \<^verbatim>\<open>parseJsonSafely\<close>: the \<^verbatim>\<open>try\<close> body of \<^verbatim>\<open>updateStatus\<close> and of
  \<^verbatim>\<open>deleteOrder\<close> up to the state update.
\<close>

definition confirmed_by_server :: "string \<Rightarrow> response awaited \<Rightarrow> string + unit" where
  "confirmed_by_server fallback f =
     (case f of
        Rejected m \<Rightarrow> Inl m
      | Resolved res \<Rightarrow>
          (case parseJsonSafely res of
             Inl m \<Rightarrow> Inl m
           | Inr data \<Rightarrow>
               if \<not> ok res then Inl (thrown_message data fallback)
               else (case read_prop data ''success'' of
                       None \<Rightarrow> Inl (cannot_read ''success'')
                     | Some s \<Rightarrow>
                         if \<not> truthy s then Inl (thrown_message data fallback)
                         else Inr ())))"

definition updateStatus ::
  "string \<Rightarrow> string \<Rightarrow> response awaited \<Rightarrow> page_state \<Rightarrow> page_state outcome" where
  "updateStatus i newStatus f st =
     (let req = \<lparr>http_method = PUT, path = ''/api/orders/'' @ i,
                  payload = Some (Obj [(''status'', Str newStatus)])\<rparr>
      in case confirmed_by_server ''Failed to update order'' f of
           Inl m \<Rightarrow>
             \<lparr>final = Some st, requests = [req],
              alerts = [''Error updating status: '' @ m]\<rparr>
         | Inr u \<Rightarrow>
             \<lparr>final = map_option (\<lambda>c. st\<lparr>collection := c\<rparr>)
                        (set_status_by_id i newStatus (collection st)),
              requests = [req], alerts = []\<rparr>)"






section \<open>The menu page (ListItemsPage)\<close>

text \<open>
  The page holds \<^verbatim>\<open>items\<close> and \<^verbatim>\<open>loading\<close>; it has no error state. It reads the body
  with \<^verbatim>\<open>res.json()\<close>, which rejects when the text is not JSON, and never looks at the
  status.
\<close>

record items_state =
  items :: jsval
  items_loading :: bool

text \<open>\<^verbatim>\<open>useState([])\<close>, \<^verbatim>\<open>useState(false)\<close>\<close>

definition ListItemsPage :: items_state where
  "ListItemsPage = \<lparr>items = Arr [], items_loading = False\<rparr>"

text \<open>\<^verbatim>\<open>setLoading(true)\<close>, the first statement of \<^verbatim>\<open>fetchItems\<close>.\<close>

definition fetchItems_started :: "items_state \<Rightarrow> items_state" where
  "fetchItems_started st = st\<lparr>items_loading := True\<rparr>"

text \<open>The \<^verbatim>\<open>try\<close> and \<^verbatim>\<open>catch\<close> of \<^verbatim>\<open>fetchItems\<close>: the left injection is the text alerted.\<close>

definition fetchItems_try :: "response awaited \<Rightarrow> string + jsval" where
  "fetchItems_try f =
     (case f of
        Rejected m \<Rightarrow> Inl ''Error fetching items''
      | Resolved res \<Rightarrow>
          (case parsed res of
             None \<Rightarrow> Inl ''Error fetching items''
           | Some data \<Rightarrow>
               (case read_prop data ''success'' of
                  None \<Rightarrow> Inl ''Error fetching items''
                | Some s \<Rightarrow>
                    if truthy s
                    then (case read_prop data ''data'' of
                            None \<Rightarrow> Inl ''Error fetching items''
                          | Some d \<Rightarrow> Inr d)
                    else Inl ''Failed to fetch items'')))"

definition fetchItems :: "response awaited \<Rightarrow> items_state \<Rightarrow> items_state outcome" where
  "fetchItems f st =
     (let req = \<lparr>http_method = GET, path = ''//api/menu'', payload = None\<rparr>;
          st1 = fetchItems_started st
      in case fetchItems_try f of
           Inl a \<Rightarrow>
             \<lparr>final = Some (st1\<lparr>items_loading := False\<rparr>), requests = [req], alerts = [a]\<rparr>
         | Inr d \<Rightarrow>
             \<lparr>final = Some (st1\<lparr>items := d, items_loading := False\<rparr>),
              requests = [req], alerts = []\<rparr>)"



text \<open>
  The body of the page: the loading text, the empty state, or the grid with one row per
  item. \<^verbatim>\<open>items.length === 0\<close> compares without conversion.
\<close>

definition itemsContent :: "items_state \<Rightarrow> row list option" where
  "itemsContent st =
     (if items_loading st then Some [LoadingRow]
      else case read_prop (items st) ''length'' of
        None \<Rightarrow> None
      | Some n \<Rightarrow> if n = Num 0 then Some [EmptyRow] else rows_of (items st))"

section \<open>The combined panel (AdminPanel)\<close>

text \<open>
  The combined panel keeps its own copies of both collections under one \<^verbatim>\<open>loading\<close>
  flag and one \<^verbatim>\<open>error\<close>.
\<close>

record panel_state =
  orders :: jsval
  contacts :: jsval
  panel_loading :: bool
  panel_error :: "string option"

definition AdminPanel :: panel_state where
  "AdminPanel = \<lparr>orders = Arr [], contacts = Arr [], panel_loading = True, panel_error = None\<rparr>"

definition fetchData_started :: "panel_state \<Rightarrow> panel_state" where
  "fetchData_started st = st\<lparr>panel_loading := True, panel_error := None\<rparr>"

text \<open>
  The argument is the outcome of \<^verbatim>\<open>Promise.all\<close> over the two fetches. On success the
  result is the pair handed to \<^verbatim>\<open>setOrders\<close> and \<^verbatim>\<open>setContacts\<close>.
\<close>

definition fetchData_try :: "(response \<times> response) awaited \<Rightarrow> string + jsval \<times> jsval" where
  "fetchData_try f =
     (case f of
        Rejected m \<Rightarrow> Inl m
      | Resolved (orderRes, contactRes) \<Rightarrow>
          (case parseJsonSafely orderRes of
             Inl m \<Rightarrow> Inl m
           | Inr orderData \<Rightarrow>
               (case parseJsonSafely contactRes of
                  Inl m \<Rightarrow> Inl m
                | Inr contactData \<Rightarrow>
                    if \<not> ok orderRes
                    then Inl (thrown_message orderData ''Failed to fetch orders'')
                    else if \<not> ok contactRes
                    then Inl (thrown_message contactData ''Failed to fetch contacts'')
                    else (case read_prop orderData ''data'' of
                            None \<Rightarrow> Inl (cannot_read ''data'')
                          | Some d \<Rightarrow> Inr (or_else d (Arr []), or_else contactData (Arr []))))))"

definition fetchData :: "(response \<times> response) awaited \<Rightarrow> panel_state \<Rightarrow> panel_state" where
  "fetchData f st =
     (let st1 = fetchData_started st
      in case fetchData_try f of
           Inl m \<Rightarrow> st1\<lparr>panel_error := Some m, panel_loading := False\<rparr>
         | Inr (os, cs) \<Rightarrow> st1\<lparr>orders := os, contacts := cs, panel_loading := False\<rparr>)"

text \<open>The panel's three mutation handlers repeat the text of the two pages'.\<close>

definition panel_updateStatus ::
  "string \<Rightarrow> string \<Rightarrow> response awaited \<Rightarrow> panel_state \<Rightarrow> panel_state outcome" where
  "panel_updateStatus i newStatus f st =
     (let req = \<lparr>http_method = PUT, path = ''/api/orders/'' @ i,
                  payload = Some (Obj [(''status'', Str newStatus)])\<rparr>
      in case confirmed_by_server ''Failed to update order'' f of
           Inl m \<Rightarrow>
             \<lparr>final = Some st, requests = [req],
              alerts = [''Error updating status: '' @ m]\<rparr>
         | Inr u \<Rightarrow>
             \<lparr>final = map_option (\<lambda>c. st\<lparr>orders := c\<rparr>)
                        (set_status_by_id i newStatus (orders st)),
              requests = [req], alerts = []\<rparr>)"





section \<open>The report exporters\<close>

text \<open>
  Each exporter maps the collection to the array \<^verbatim>\<open>formatted\<close> of flat rows and hands it
  to the sheet writer of the \<^verbatim>\<open>xlsx\<close> library, which is not part of the program. A row is
  the list of its columns in the order the object literal declares them. The model ends
  with what is handed over: the rows, the sheet name and the file name.

  Two functions of the runtime are parameters: \<open>add\<close> is JavaScript's \<^verbatim>\<open>+\<close> (floating
  point addition, or concatenation once a string is involved), and \<open>toLocale\<close> is
  \<^verbatim>\<open>new Date(d).toLocaleString("en-US", { dateStyle: "medium", timeStyle: "short" })\<close>.
\<close>

text \<open>The dash U+2014 that \<^verbatim>\<open>formatDate\<close> returns for a missing date, in UTF-8.\<close>

definition em_dash :: string where
  "em_dash = [CHR 0xE2, CHR 0x80, CHR 0x94]"

definition formatDate :: "(jsval \<Rightarrow> string) \<Rightarrow> jsval \<Rightarrow> string" where
  "formatDate toLocale d = (if truthy d then toLocale d else em_dash)"

text \<open>\<^verbatim>\<open>items.reduce((n, i) => n + (i.quantity || 0), 0)\<close>\<close>

fun sum_quantities :: "(jsval \<Rightarrow> jsval \<Rightarrow> jsval) \<Rightarrow> jsval \<Rightarrow> jsval list \<Rightarrow> jsval option" where
  "sum_quantities add n [] = Some n"
| "sum_quantities add n (i # rest) =
     (case read_prop i ''quantity'' of
        None \<Rightarrow> None
      | Some q \<Rightarrow> sum_quantities add (add n (or_else q (Num 0))) rest)"

text \<open>
  \<^verbatim>\<open>totalQty\<close>: the default \<^verbatim>\<open>items = []\<close> replaces \<^verbatim>\<open>undefined\<close> only, and only an
  array has \<^verbatim>\<open>reduce\<close>.
\<close>

definition totalQty :: "(jsval \<Rightarrow> jsval \<Rightarrow> jsval) \<Rightarrow> jsval \<Rightarrow> jsval option" where
  "totalQty add its =
     (case its of
        Undefined \<Rightarrow> Some (Num 0)
      | Arr xs \<Rightarrow> sum_quantities add (Num 0) xs
      | _ \<Rightarrow> None)"

text \<open>A field of a record that is known not to be \<^verbatim>\<open>null\<close>.\<close>

definition field :: "jsval \<Rightarrow> string \<Rightarrow> jsval" where
  "field x k = (case read_prop x k of None \<Rightarrow> Undefined | Some v \<Rightarrow> v)"

text \<open>
  One element of \<^verbatim>\<open>formatted\<close> in \<^verbatim>\<open>exportOrdersToExcel\<close>. The first read,
  \<^verbatim>\<open>o._id\<close>, throws when the record is \<^verbatim>\<open>null\<close>.
\<close>

definition order_row ::
  "(jsval \<Rightarrow> jsval \<Rightarrow> jsval) \<Rightarrow> (jsval \<Rightarrow> string) \<Rightarrow> jsval \<Rightarrow> (string \<times> jsval) list option" where
  "order_row add toLocale x =
     (case read_prop x ''_id'' of
        None \<Rightarrow> None
      | Some i \<Rightarrow>
          (case totalQty add (field x ''items'') of
             None \<Rightarrow> None
           | Some qty \<Rightarrow>
               Some [(''ID'', i),
                     (''Name'', Str (to_string (or_else (field x ''firstName'') (Str []))
                                 @ '' '' @ to_string (or_else (field x ''lastName'') (Str [])))),
                     (''Email'', field x ''email''),
                     (''Phone'', field x ''phone''),
                     (''Address'', field x ''address''),
                     (''City'', field x ''city''),
                     (''ZipCode'', field x ''zipCode''),
                     (''Payment'', field x ''paymentMethod''),
                     (''Status'', field x ''status''),
                     (''TotalItems'', qty),
                     (''TotalPrice'', field x ''totalPrice''),
                     (''CreatedAt'', Str (formatDate toLocale (field x ''createdAt'')))]))"


text \<open>\<^verbatim>\<open>c.map(row)\<close>: only an array has \<^verbatim>\<open>map\<close>, and a throwing callback ends it.\<close>

definition formatted :: "(jsval \<Rightarrow> 'a option) \<Rightarrow> jsval \<Rightarrow> 'a list option" where
  "formatted row_of c = (case c of Arr xs \<Rightarrow> those (map row_of xs) | _ \<Rightarrow> None)"

datatype export_error = TypeError | ReferenceError string

record download =
  sheet :: string
  filename :: string
  sheet_rows :: "(string \<times> jsval) list list"

text \<open>What pressing an export button leaves behind: the file offered, and the requests issued.\<close>

record export_outcome =
  offered :: "export_error + download"
  export_requests :: "request list"

text \<open>
  The order page ends with a call of \<^verbatim>\<open>downloadFile\<close>, a name that its module neither
  defines nor imports (the contact page defines one of its own, which it does not
  export): the call throws a ReferenceError once the workbook is built.
\<close>

definition exportOrdersToExcel ::
  "(jsval \<Rightarrow> jsval \<Rightarrow> jsval) \<Rightarrow> (jsval \<Rightarrow> string) \<Rightarrow> page_state \<Rightarrow> export_outcome" where
  "exportOrdersToExcel add toLocale st =
     \<lparr>offered =
        (case formatted (order_row add toLocale) (collection st) of
           None \<Rightarrow> Inl TypeError
         | Some rs \<Rightarrow> Inl (ReferenceError ''downloadFile'')),
      export_requests = []\<rparr>"




section \<open>The behaviour the specification describes\<close>


text \<open>
  What the specification says a list fetch stores: the body itself when it is a bare
  array, else its \<^verbatim>\<open>data\<close> field, else nothing. \<open>envelope_only\<close> is what the order
  fetches store: the \<^verbatim>\<open>data\<close> field or nothing.
\<close>

definition either_shape :: "jsval \<Rightarrow> jsval" where
  "either_shape v = (case v of Arr xs \<Rightarrow> v | _ \<Rightarrow> or_else (field v ''data'') (Arr []))"

definition envelope_only :: "jsval \<Rightarrow> jsval" where
  "envelope_only v = or_else (field v ''data'') (Arr [])"




text \<open>
  A collection of records: no element is \<^verbatim>\<open>null\<close>, so that the fields of each can be
  read. The identifier of a record is its \<^verbatim>\<open>_id\<close> field.
\<close>

definition records_only :: "jsval list \<Rightarrow> bool" where
  "records_only xs \<longleftrightarrow> list_all (\<lambda>x. x \<noteq> Null \<and> x \<noteq> Undefined) xs"

definition record_id :: "jsval \<Rightarrow> jsval" where
  "record_id x = field x ''_id''"



definition patched :: "string \<Rightarrow> string \<Rightarrow> jsval list \<Rightarrow> jsval list" where
  "patched i newStatus xs =
     map (\<lambda>x. if record_id x = Str i then with_status x newStatus else x) xs"

text \<open>The body of a response says success: it parses and its \<^verbatim>\<open>success\<close> field is truthy.\<close>

definition says_success :: "response \<Rightarrow> bool" where
  "says_success r = (case parsed r of None \<Rightarrow> False | Some v \<Rightarrow> truthy (field v ''success''))"






section \<open>Properties\<close>

subsection \<open>Table bodies\<close>











subsection \<open>Initial states\<close>

text \<open>
  C8, as amended. The order page, the contact page and the combined panel start with
  loading set, no error and empty collections, and starting the fetch on mount leaves
  that state as it is. The menu page starts with an empty collection and loading
  \<^emph>\<open>not\<close> set; it has no error state, and loading becomes true when its fetch starts.
\<close>

theorem initial_states:
  "OrderManagement = \<lparr>collection = Arr [], loading = True, error = None\<rparr>
   \<and> fetch_started OrderManagement = OrderManagement
   \<and> ContactManagement = \<lparr>collection = Arr [], loading = True, error = None\<rparr>
   \<and> fetch_started ContactManagement = ContactManagement
   \<and> AdminPanel
       = \<lparr>orders = Arr [], contacts = Arr [], panel_loading = True, panel_error = None\<rparr>
   \<and> fetchData_started AdminPanel = AdminPanel
   \<and> ListItemsPage = \<lparr>items = Arr [], items_loading = False\<rparr>
   \<and> fetchItems_started ListItemsPage = \<lparr>items = Arr [], items_loading = True\<rparr>"
  by (simp add: OrderManagement_def ContactManagement_def AdminPanel_def ListItemsPage_def
      fetch_started_def fetchData_started_def fetchItems_started_def)

text \<open>
  C8 as stated fails for the menu page: right after construction it is not loading, and
  its first body is the empty state.
\<close>

theorem initial_states_counterexample:
  "items_loading ListItemsPage = False \<and> itemsContent ListItemsPage = Some [EmptyRow]"
  by (simp add: ListItemsPage_def itemsContent_def)

subsection \<open>Gateway calls\<close>

lemma read_prop_field: "v \<noteq> Null \<Longrightarrow> v \<noteq> Undefined \<Longrightarrow> read_prop v k = Some (field v k)"
  by (cases v) (simp_all add: field_def)




















subsection \<open>List fetches\<close>

lemma fetchOrders_stores:
  assumes "ok r" and "parsed r = Some v" and "v \<noteq> Null" and "v \<noteq> Undefined"
  shows "fetchOrders (Resolved r) st
           = \<lparr>collection = envelope_only v, loading = False, error = None\<rparr>"
  using assms
  by (simp add: fetchOrders_def fetchOrders_try_def parseJsonSafely_def read_prop_field
      fetch_settled_def fetch_started_def envelope_only_def)

lemma fetchContacts_stores:
  assumes "ok r" and "parsed r = Some v" and "v \<noteq> Null" and "v \<noteq> Undefined"
  shows "fetchContacts (Resolved r) st
           = \<lparr>collection = either_shape v, loading = False, error = None\<rparr>"
  using assms
  by (cases v) (simp_all add: fetchContacts_def fetchContacts_try_def parseJsonSafely_def
      read_prop_field fetch_settled_def fetch_started_def either_shape_def field_def)

lemma fetchData_stores:
  assumes "ok r" and "parsed r = Some v" and "v \<noteq> Null" and "v \<noteq> Undefined"
    and "ok rc" and "parsed rc = Some vc"
  shows "fetchData (Resolved (r, rc)) p
           = \<lparr>orders = envelope_only v, contacts = or_else vc (Arr []),
              panel_loading = False, panel_error = None\<rparr>"
  using assms
  by (simp add: fetchData_def fetchData_try_def parseJsonSafely_def read_prop_field
      fetchData_started_def envelope_only_def)

lemma fetchItems_stores:
  assumes "parsed r = Some v" and "v \<noteq> Null" and "v \<noteq> Undefined"
    and "truthy (field v ''success'')"
  shows "fetchItems (Resolved r) m
           = \<lparr>final = Some \<lparr>items = field v ''data'', items_loading = False\<rparr>,
              requests = [\<lparr>http_method = GET, path = ''//api/menu'', payload = None\<rparr>],
              alerts = []\<rparr>"
  using assms
  by (simp add: fetchItems_def fetchItems_try_def read_prop_field fetchItems_started_def)

text \<open>
  C3, as amended. After a response with a success status and a parsed body other than
  \<^verbatim>\<open>null\<close>, every list fetch replaces the whole collection, clears the error and ends
  with loading false. The contact page stores the body when it is a bare array and its
  \<^verbatim>\<open>data\<close> field otherwise; the order page and the panel's orders store the
  \<^verbatim>\<open>data\<close> field only (the empty list when it is missing or falsy); the panel's
  contacts store the body itself; the menu page stores the \<^verbatim>\<open>data\<close> field when the
  \<^verbatim>\<open>success\<close> field is truthy.
\<close>

theorem list_fetch_stores:
  assumes "ok r" and "parsed r = Some v" and "v \<noteq> Null" and "v \<noteq> Undefined"
  shows "fetchContacts (Resolved r) st
           = \<lparr>collection = either_shape v, loading = False, error = None\<rparr>
       \<and> fetchOrders (Resolved r) st
           = \<lparr>collection = envelope_only v, loading = False, error = None\<rparr>
       \<and> (ok rc \<and> parsed rc = Some vc \<longrightarrow>
            fetchData (Resolved (r, rc)) p
              = \<lparr>orders = envelope_only v, contacts = or_else vc (Arr []),
                 panel_loading = False, panel_error = None\<rparr>)
       \<and> (truthy (field v ''success'') \<longrightarrow>
            final (fetchItems (Resolved r) m)
              = Some \<lparr>items = field v ''data'', items_loading = False\<rparr>)"
  using assms
  by (simp add: fetchOrders_stores fetchContacts_stores fetchData_stores fetchItems_stores)

theorem list_fetch_stores_witness:
  "fetchContacts (Resolved \<lparr>status = 200, parsed = Some (Arr [Obj [(''_id'', Str ''c1'')]])\<rparr>)
       ContactManagement
     = \<lparr>collection = Arr [Obj [(''_id'', Str ''c1'')]], loading = False, error = None\<rparr>
   \<and> fetchContacts
       (Resolved \<lparr>status = 200, parsed = Some (Obj [(''data'', Arr [Obj [(''_id'', Str ''c1'')]])])\<rparr>)
       ContactManagement
     = \<lparr>collection = Arr [Obj [(''_id'', Str ''c1'')]], loading = False, error = None\<rparr>
   \<and> fetchOrders
       (Resolved \<lparr>status = 200, parsed = Some (Obj [(''data'', Arr [Obj [(''_id'', Str ''o1'')]])])\<rparr>)
       OrderManagement
     = \<lparr>collection = Arr [Obj [(''_id'', Str ''o1'')]], loading = False, error = None\<rparr>
   \<and> fetchData
       (Resolved (\<lparr>status = 200, parsed = Some (Obj [(''data'', Arr [Obj [(''_id'', Str ''o1'')]])])\<rparr>,
                  \<lparr>status = 200, parsed = Some (Arr [Obj [(''_id'', Str ''c1'')]])\<rparr>))
       AdminPanel
     = \<lparr>orders = Arr [Obj [(''_id'', Str ''o1'')]], contacts = Arr [Obj [(''_id'', Str ''c1'')]],
        panel_loading = False, panel_error = None\<rparr>
   \<and> final (fetchItems
       (Resolved \<lparr>status = 200,
          parsed = Some (Obj [(''success'', Bool True), (''data'', Arr [Obj [(''_id'', Str ''m1'')]])])\<rparr>)
       ListItemsPage)
     = Some \<lparr>items = Arr [Obj [(''_id'', Str ''m1'')]], items_loading = False\<rparr>"
proof -
  let ?c = "Arr [Obj [(''_id'', Str ''c1'')]]"
  let ?o = "Obj [(''data'', Arr [Obj [(''_id'', Str ''o1'')]])]"
  let ?e = "Obj [(''data'', Arr [Obj [(''_id'', Str ''c1'')]])]"
  let ?m = "Obj [(''success'', Bool True), (''data'', Arr [Obj [(''_id'', Str ''m1'')]])]"
  let ?rc = "\<lparr>status = 200, parsed = Some ?c\<rparr>"
  note a = list_fetch_stores [where r = "\<lparr>status = 200, parsed = Some ?c\<rparr>" and v = ?c
      and st = ContactManagement and rc = ?rc and vc = ?c and p = AdminPanel
      and m = ListItemsPage]
  note b = list_fetch_stores [where r = "\<lparr>status = 200, parsed = Some ?o\<rparr>" and v = ?o
      and st = OrderManagement and rc = ?rc and vc = ?c and p = AdminPanel
      and m = ListItemsPage]
  note c = list_fetch_stores [where r = "\<lparr>status = 200, parsed = Some ?e\<rparr>" and v = ?e
      and st = ContactManagement and rc = ?rc and vc = ?c and p = AdminPanel
      and m = ListItemsPage]
  note d = list_fetch_stores [where r = "\<lparr>status = 200, parsed = Some ?m\<rparr>" and v = ?m
      and st = OrderManagement and rc = ?rc and vc = ?c and p = AdminPanel
      and m = ListItemsPage]
  show ?thesis
    using a b c d
    by (simp add: ok_def either_shape_def envelope_only_def field_def or_else_def)
qed

text \<open>
  C3 as stated fails for the order page: a bare array of one order, sent with status
  200, leaves the collection empty and reports no error.
\<close>

theorem list_fetch_counterexample:
  "fetchOrders (Resolved \<lparr>status = 200, parsed = Some (Arr [Obj [(''_id'', Str ''o1'')]])\<rparr>)
       OrderManagement
     = \<lparr>collection = Arr [], loading = False, error = None\<rparr>
   \<and> either_shape (Arr [Obj [(''_id'', Str ''o1'')]]) = Arr [Obj [(''_id'', Str ''o1'')]]"
  by (simp add: fetchOrders_def fetchOrders_try_def parseJsonSafely_def ok_def
      fetch_settled_def fetch_started_def or_else_def OrderManagement_def either_shape_def)





subsection \<open>State updaters\<close>



lemma patch_status_patched:
  "records_only xs \<Longrightarrow> patch_status i s xs = Some (patched i s xs)"
  by (induction xs)
     (simp_all add: records_only_def patched_def record_id_def read_prop_field)

lemma set_status_by_id_Arr:
  "records_only xs \<Longrightarrow> set_status_by_id i s (Arr xs) = Some (Arr (patched i s xs))"
  by (simp add: set_status_by_id_def patch_status_patched)




lemma record_id_Str_is_Obj: "record_id x = Str i \<Longrightarrow> \<exists>kvs. x = Obj kvs"
  by (cases x) (simp_all add: record_id_def field_def split: if_splits)

lemma field_with_status:
  "field (with_status (Obj kvs) s) k = (if k = ''status'' then Str s else field (Obj kvs) k)"
  by (simp add: with_status_def field_def update_conv')








subsection \<open>Mutations that the server confirms\<close>

lemma says_success_confirmed:
  "ok r \<Longrightarrow> says_success r \<Longrightarrow> confirmed_by_server fb (Resolved r) = Inr ()"
  by (cases "parsed r")
     (auto simp: says_success_def confirmed_by_server_def parseJsonSafely_def field_def
       split: option.splits)






lemma updateStatus_done:
  assumes "collection st = Arr xs" and "records_only xs" and "ok r" and "says_success r"
  shows "updateStatus i s (Resolved r) st
           = \<lparr>final = Some (st\<lparr>collection := Arr (patched i s xs)\<rparr>),
              requests = [\<lparr>http_method = PUT, path = ''/api/orders/'' @ i,
                           payload = Some (Obj [(''status'', Str s)])\<rparr>],
              alerts = []\<rparr>"
  using assms by (simp add: updateStatus_def says_success_confirmed set_status_by_id_Arr)

lemma panel_updateStatus_done:
  assumes "orders p = Arr xs" and "records_only xs" and "ok r" and "says_success r"
  shows "panel_updateStatus i s (Resolved r) p
           = \<lparr>final = Some (p\<lparr>orders := Arr (patched i s xs)\<rparr>),
              requests = [\<lparr>http_method = PUT, path = ''/api/orders/'' @ i,
                           payload = Some (Obj [(''status'', Str s)])\<rparr>],
              alerts = []\<rparr>"
  using assms by (simp add: panel_updateStatus_def says_success_confirmed set_status_by_id_Arr)

subsection \<open>Mutations that fail\<close>














subsection \<open>Delete\<close>



subsection \<open>Status update\<close>

lemma patched_nth_other:
  "n < length xs \<Longrightarrow> record_id (xs ! n) \<noteq> Str i \<Longrightarrow> patched i s xs ! n = xs ! n"
  by (simp add: patched_def)

lemma patched_nth_match:
  assumes "n < length xs" and "record_id (xs ! n) = Str i"
  shows "field (patched i s xs ! n) k = (if k = ''status'' then Str s else field (xs ! n) k)"
proof -
  obtain kvs where "xs ! n = Obj kvs"
    using record_id_Str_is_Obj [OF assms(2)] by blast
  then show ?thesis
    using assms by (simp add: patched_def field_with_status)
qed

text \<open>
  C5. When the collection is an array of records and the gateway reports the update as
  successful, \<^verbatim>\<open>updateStatus(id, newStatus)\<close> (on the order page and in the combined
  panel) leaves loading and error alone and replaces the collection by one of the same
  length in which every record whose identifier is not \<open>i\<close> is the record it was, and a
  record whose identifier is \<open>i\<close> reads \<open>newStatus\<close> in its status field and what it read
  before in every other field.
\<close>

theorem status_update_frame:
  assumes "records_only xs" and "ok r" and "says_success r"
  shows "(collection st = Arr xs \<longrightarrow>
            updateStatus i s (Resolved r) st
              = \<lparr>final = Some (st\<lparr>collection := Arr (patched i s xs)\<rparr>),
                 requests = [\<lparr>http_method = PUT, path = ''/api/orders/'' @ i,
                              payload = Some (Obj [(''status'', Str s)])\<rparr>],
                 alerts = []\<rparr>)
       \<and> (orders p = Arr xs \<longrightarrow>
            panel_updateStatus i s (Resolved r) p
              = \<lparr>final = Some (p\<lparr>orders := Arr (patched i s xs)\<rparr>),
                 requests = [\<lparr>http_method = PUT, path = ''/api/orders/'' @ i,
                              payload = Some (Obj [(''status'', Str s)])\<rparr>],
                 alerts = []\<rparr>)
       \<and> length (patched i s xs) = length xs
       \<and> (\<forall>n < length xs.
            (record_id (xs ! n) \<noteq> Str i \<longrightarrow> patched i s xs ! n = xs ! n)
          \<and> (record_id (xs ! n) = Str i \<longrightarrow>
               (\<forall>k. field (patched i s xs ! n) k
                      = (if k = ''status'' then Str s else field (xs ! n) k))))"
proof -
  have "length (patched i s xs) = length xs"
    by (simp add: patched_def)
  then show ?thesis
    using assms
    by (simp add: updateStatus_done panel_updateStatus_done patched_nth_other
        patched_nth_match)
qed

theorem status_update_frame_witness:
  "updateStatus ''o1'' ''delivered''
       (Resolved \<lparr>status = 200, parsed = Some (Obj [(''success'', Bool True)])\<rparr>)
       \<lparr>collection = Arr [Obj [(''_id'', Str ''o1''), (''status'', Str ''pending''),
                                (''city'', Str ''Lahore'')],
                           Obj [(''_id'', Str ''o2''), (''status'', Str ''pending'')]],
         loading = False, error = None\<rparr>
     = \<lparr>final = Some \<lparr>collection = Arr [Obj [(''_id'', Str ''o1''), (''status'', Str ''delivered''),
                                              (''city'', Str ''Lahore'')],
                                         Obj [(''_id'', Str ''o2''), (''status'', Str ''pending'')]],
                       loading = False, error = None\<rparr>,
        requests = [\<lparr>http_method = PUT, path = ''/api/orders/o1'',
                     payload = Some (Obj [(''status'', Str ''delivered'')])\<rparr>],
        alerts = []\<rparr>"
proof -
  let ?xs = "[Obj [(''_id'', Str ''o1''), (''status'', Str ''pending''), (''city'', Str ''Lahore'')],
              Obj [(''_id'', Str ''o2''), (''status'', Str ''pending'')]]"
  let ?r = "\<lparr>status = 200, parsed = Some (Obj [(''success'', Bool True)])\<rparr>"
  have 1: "records_only ?xs" by (simp add: records_only_def)
  have 2: "ok ?r" by (simp add: ok_def)
  have 3: "says_success ?r" by (simp add: says_success_def field_def)
  show ?thesis
    using status_update_frame [OF 1 2 3,
        where st = "\<lparr>collection = Arr ?xs, loading = False, error = None\<rparr>"
          and i = "''o1''" and s = "''delivered''"]
    by (simp add: patched_def record_id_def field_def with_status_def)
qed

subsection \<open>Failed mutations\<close>




subsection \<open>Distinct identifiers\<close>




lemma says_success_parsed: "says_success r \<Longrightarrow> \<exists>v. parsed r = Some v"
  by (cases "parsed r") (simp_all add: says_success_def)









subsection \<open>Export\<close>















text \<open>
  The export button of the order page builds its rows and then calls a function its
  module does not have, so no file is ever offered there.
\<close>

lemma order_page_export_offers_no_file:
  "offered (exportOrdersToExcel add toLocale st) \<noteq> Inr d"
  by (simp add: exportOrdersToExcel_def split: option.split)




end
